theory Spec2Isabelle
  imports Main
begin

section \<open>Domain: task states, roles and the state machine (src/domain/task.ts)\<close>

text \<open>
  \<^verbatim>\<open>TaskState\<close> and \<^verbatim>\<open>TaskPriority\<close> are closed unions of string literals; the
  database columns carry the same enumerations. \<^verbatim>\<open>UserRole\<close> is declared as
  \<^verbatim>\<open>'agent' | 'manager'\<close>, but the value is a request header cast to that type and
  \<^verbatim>\<open>validateTransition\<close> ends in a branch for any other value, so a role is a
  string here.
\<close>

datatype TaskState = NEW | IN_PROGRESS | DONE | CANCELLED

datatype TaskPriority = LOW | MEDIUM | HIGH

type_synonym UserRole = string

text \<open>
  The table \<^verbatim>\<open>allowed\<close> of \<^verbatim>\<open>validateTransition\<close>: the target states listed for
  each current state.
\<close>

fun allowed :: "TaskState \<Rightarrow> TaskState list" where
  "allowed NEW = [IN_PROGRESS, CANCELLED]"
| "allowed IN_PROGRESS = [DONE, CANCELLED]"
| "allowed DONE = []"
| "allowed CANCELLED = []"

text \<open>
  \<^verbatim>\<open>TaskDomain.validateTransition(currentState, toState, role, assigneeId, currentUserId)\<close>.
  The assignee is \<^verbatim>\<open>string | null\<close> (\<open>None\<close> is \<^verbatim>\<open>null\<close>), so
  \<^verbatim>\<open>assigneeId !== currentUserId\<close> is \<open>assignee \<noteq> Some currentUserId\<close>.
\<close>

definition validateTransition ::
  "TaskState \<Rightarrow> TaskState \<Rightarrow> UserRole \<Rightarrow> string option \<Rightarrow> string \<Rightarrow> bool" where
  "validateTransition currentState toState role assignee currentUserId =
     (if \<not> List.member (allowed currentState) toState then False
      else if role = ''manager'' then toState = CANCELLED
      else if role = ''agent'' then
        (if assignee \<noteq> Some currentUserId then False
         else if currentState = NEW \<and> toState = IN_PROGRESS then True
         else if currentState = IN_PROGRESS \<and> toState = DONE then True
         else False)
      else False)"

text \<open>\<^verbatim>\<open>TaskDomain.canAssign(state, role)\<close>.\<close>

definition canAssign :: "TaskState \<Rightarrow> UserRole \<Rightarrow> bool" where
  "canAssign st role =
     (if role \<noteq> ''manager'' then False else st = NEW \<or> st = IN_PROGRESS)"

section \<open>The three tables (src/db/schema.ts)\<close>

text \<open>
  The argument of \<^verbatim>\<open>TaskRepository.create\<close> is a \<^verbatim>\<open>Task\<close> without
  \<^verbatim>\<open>version\<close>, \<^verbatim>\<open>createdAt\<close> and \<^verbatim>\<open>updatedAt\<close>; a row of \<^verbatim>\<open>tasks\<close> extends it with
  those three columns. The integer columns hold the integers that SQLite stores; what
  JavaScript reads from them and computes with them is rounded by \<open>to_double\<close>
  below. The primary key \<^verbatim>\<open>id\<close> is written \<open>id_task\<close>.
\<close>

record TaskInput =
  id_task :: string
  tenantId :: string
  workspaceId :: string
  title :: string
  priority :: TaskPriority
  state :: TaskState
  assigneeId :: "string option"

record Task = TaskInput +
  version :: int
  createdAt :: int
  updatedAt :: int

text \<open>
  The JSON payload of an outbox event: the new task with \<^verbatim>\<open>version: 1\<close> for
  TaskCreated, \<^verbatim>\<open>{ assigneeId }\<close> for TaskAssigned, \<^verbatim>\<open>{ from, to }\<close> for
  TaskStateChanged.
\<close>

datatype EventPayload =
  TaskCreatedPayload TaskInput int
| TaskAssignedPayload string
| TaskStateChangedPayload TaskState TaskState

record TaskEvent =
  id_event :: string
  taskId_event :: string
  eventType :: string
  payload :: EventPayload
  createdAt_event :: int

text \<open>The object \<^verbatim>\<open>{ task_id, state, version }\<close> that the three mutations return.\<close>

record Response =
  task_id :: string
  state_resp :: TaskState
  version_resp :: int

record IdempotencyKey =
  key :: string
  responsePayload :: Response
  createdAt_key :: int

text \<open>A table is the list of its rows in insertion order.\<close>

record Database =
  tasks :: "Task list"
  taskEvents :: "TaskEvent list"
  idempotencyKeys :: "IdempotencyKey list"

text \<open>
  What an operation reads from outside the database: the value \<^verbatim>\<open>uuidv4()\<close> returns
  for the event row, SQLite's \<^verbatim>\<open>unixepoch()\<close> (the column default of the creation
  and modification times) and \<^verbatim>\<open>Math.floor(Date.now() / 1000)\<close>.
\<close>

record Env =
  uuidv4 :: string
  unixepoch :: int
  dateNow :: int

text \<open>
  The errors thrown inside a transaction. The first three are thrown by the repository;
  \<open>SqliteError\<close> is the driver's error for a violated primary key, with its message.
  A thrown error rolls the transaction back, so an operation returns either an error or
  its result together with the new database.
\<close>

datatype Error = TaskNotFound | VersionMismatch | InvalidState | SqliteError string

fun message :: "Error \<Rightarrow> string" where
  "message TaskNotFound = ''TaskNotFound''"
| "message VersionMismatch = ''VersionMismatch''"
| "message InvalidState = ''InvalidState''"
| "message (SqliteError m) = m"

definition insert_task :: "Task \<Rightarrow> Database \<Rightarrow> Error + Database" where
  "insert_task row db =
     (if id_task row \<in> set (map id_task (tasks db))
      then Inl (SqliteError ''UNIQUE constraint failed: tasks.id'')
      else Inr (db\<lparr>tasks := tasks db @ [row]\<rparr>))"

definition insert_event :: "TaskEvent \<Rightarrow> Database \<Rightarrow> Error + Database" where
  "insert_event row db =
     (if id_event row \<in> set (map id_event (taskEvents db))
      then Inl (SqliteError ''UNIQUE constraint failed: task_events.id'')
      else Inr (db\<lparr>taskEvents := taskEvents db @ [row]\<rparr>))"

definition insert_key :: "IdempotencyKey \<Rightarrow> Database \<Rightarrow> Error + Database" where
  "insert_key row db =
     (if key row \<in> set (map key (idempotencyKeys db))
      then Inl (SqliteError ''UNIQUE constraint failed: idempotency_keys.key'')
      else Inr (db\<lparr>idempotencyKeys := idempotencyKeys db @ [row]\<rparr>))"

section \<open>JavaScript numbers\<close>

text \<open>
  A JavaScript number is a double. Every integer up to \<open>2^53 = 9007199254740992\<close> in
  absolute value is a double; a larger integer is a double only when it is a multiple
  of the spacing of the doubles around it, \<open>double_ulp\<close>, which is 2 from \<open>2^53\<close>, 4
  from \<open>2^54\<close> and so on. \<open>to_double n\<close> is the double nearest to the integer \<open>n\<close>,
  the one with the even significand when two are equally near: the value the driver
  hands to JavaScript for a stored integer, and the result of a JavaScript sum whose
  exact value is \<open>n\<close>. (Doubles end near \<open>2^1024\<close>; no integer of this program comes
  near that.)
\<close>

fun double_ulp :: "nat \<Rightarrow> nat" where
  "double_ulp n = (if n < 9007199254740992 then 1 else 2 * double_ulp (n div 2))"

declare double_ulp.simps [simp del]

definition to_double :: "int \<Rightarrow> int" where
  "to_double n =
     (let a = nat \<bar>n\<bar>;
          u = double_ulp a;
          q = a div u;
          r = a mod u;
          q' = (if u < 2 * r \<or> (2 * r = u \<and> odd q) then q + 1 else q)
      in sgn n * int (q' * u))"

section \<open>The repository (src/repositories/taskRepository.ts)\<close>

text \<open>
  JavaScript truthiness of an optional string: \<^verbatim>\<open>undefined\<close> (\<open>None\<close>) and the empty
  string are falsy.
\<close>

definition truthy :: "string option \<Rightarrow> bool" where
  "truthy s = (case s of None \<Rightarrow> False | Some v \<Rightarrow> v \<noteq> [])"

text \<open>
  Step 1 of \<^verbatim>\<open>create\<close>: the row of \<^verbatim>\<open>idempotency_keys\<close> with this key, looked up
  only when the key is truthy.
\<close>

definition existing_key :: "string option \<Rightarrow> Database \<Rightarrow> IdempotencyKey option" where
  "existing_key idempotencyKey db =
     (case idempotencyKey of
        None \<Rightarrow> None
      | Some k \<Rightarrow> if k \<noteq> [] then find (\<lambda>r. key r = k) (idempotencyKeys db) else None)"

text \<open>\<^verbatim>\<open>TaskRepository.create(task, idempotencyKey?)\<close>.\<close>

definition create ::
  "Env \<Rightarrow> TaskInput \<Rightarrow> string option \<Rightarrow> Database \<Rightarrow> Error + (Response \<times> Database)" where
  "create env task idempotencyKey db =
     (case existing_key idempotencyKey db of
        Some existing \<Rightarrow> Inr (responsePayload existing, db)
      | None \<Rightarrow>
         (case insert_task
                 \<lparr>id_task = id_task task, tenantId = tenantId task,
                  workspaceId = workspaceId task, title = title task,
                  priority = priority task, state = state task,
                  assigneeId = assigneeId task, version = 1,
                  createdAt = unixepoch env, updatedAt = unixepoch env\<rparr> db of
            Inl err \<Rightarrow> Inl err
          | Inr db1 \<Rightarrow>
             (case insert_event
                     \<lparr>id_event = uuidv4 env, taskId_event = id_task task,
                      eventType = ''TaskCreated'', payload = TaskCreatedPayload task 1,
                      createdAt_event = unixepoch env\<rparr> db1 of
                Inl err \<Rightarrow> Inl err
              | Inr db2 \<Rightarrow>
                 (let result = \<lparr>task_id = id_task task, state_resp = state task,
                                 version_resp = 1\<rparr>
                  in if truthy idempotencyKey then
                       (case insert_key
                               \<lparr>key = (case idempotencyKey of Some k \<Rightarrow> k | None \<Rightarrow> []),
                                responsePayload = result,
                                createdAt_key = unixepoch env\<rparr> db2 of
                          Inl err \<Rightarrow> Inl err
                        | Inr db3 \<Rightarrow> Inr (result, db3))
                     else Inr (result, db2)))))"

text \<open>
  The \<^verbatim>\<open>UPDATE tasks SET ... WHERE id = ? AND version = ?\<close> of \<^verbatim>\<open>assign\<close> and
  \<^verbatim>\<open>transition\<close>: every row that satisfies the condition is changed by \<open>f\<close>.
\<close>

definition update_tasks :: "string \<Rightarrow> int \<Rightarrow> (Task \<Rightarrow> Task) \<Rightarrow> Database \<Rightarrow> Database" where
  "update_tasks taskId currentVersion f db =
     db\<lparr>tasks := map (\<lambda>t. if id_task t = taskId \<and> version t = currentVersion
                             then f t else t) (tasks db)\<rparr>"

text \<open>
  \<^verbatim>\<open>TaskRepository.assign(taskId, assigneeId, currentVersion)\<close>. The expected
  version is a JavaScript number with an integer value. \<^verbatim>\<open>task.version\<close> is the stored
  version as JavaScript reads it, \<^verbatim>\<open>currentVersion + 1\<close> is a JavaScript sum, and the
  condition of the \<^verbatim>\<open>UPDATE\<close> compares the stored integer with the bound number
  inside SQLite, exactly.
\<close>

definition assign ::
  "Env \<Rightarrow> string \<Rightarrow> string \<Rightarrow> int \<Rightarrow> Database \<Rightarrow> Error + (Response \<times> Database)" where
  "assign env taskId assignee currentVersion db =
     (case find (\<lambda>t. id_task t = taskId) (tasks db) of
        None \<Rightarrow> Inl TaskNotFound
      | Some task \<Rightarrow>
         if to_double (version task) \<noteq> currentVersion then Inl VersionMismatch
         else if state task = DONE \<or> state task = CANCELLED then Inl InvalidState
         else
           (let nextVersion = to_double (currentVersion + 1);
                db1 = update_tasks taskId currentVersion
                        (\<lambda>t. t\<lparr>assigneeId := Some assignee, version := nextVersion,
                                updatedAt := dateNow env\<rparr>) db
            in case insert_event
                      \<lparr>id_event = uuidv4 env, taskId_event = taskId,
                       eventType = ''TaskAssigned'',
                       payload = TaskAssignedPayload assignee,
                       createdAt_event = unixepoch env\<rparr> db1 of
                 Inl err \<Rightarrow> Inl err
               | Inr db2 \<Rightarrow>
                   Inr (\<lparr>task_id = taskId, state_resp = state task,
                         version_resp = nextVersion\<rparr>, db2)))"

text \<open>
  \<^verbatim>\<open>TaskRepository.transition(taskId, toState, currentVersion)\<close>, with the same
  reading of the numbers.
\<close>

definition transition ::
  "Env \<Rightarrow> string \<Rightarrow> TaskState \<Rightarrow> int \<Rightarrow> Database \<Rightarrow> Error + (Response \<times> Database)" where
  "transition env taskId toState currentVersion db =
     (case find (\<lambda>t. id_task t = taskId) (tasks db) of
        None \<Rightarrow> Inl TaskNotFound
      | Some task \<Rightarrow>
         if to_double (version task) \<noteq> currentVersion then Inl VersionMismatch
         else
           (let nextVersion = to_double (currentVersion + 1);
                db1 = update_tasks taskId currentVersion
                        (\<lambda>t. t\<lparr>state := toState, version := nextVersion,
                                updatedAt := dateNow env\<rparr>) db
            in case insert_event
                      \<lparr>id_event = uuidv4 env, taskId_event = taskId,
                       eventType = ''TaskStateChanged'',
                       payload = TaskStateChangedPayload (state task) toState,
                       createdAt_event = unixepoch env\<rparr> db1 of
                 Inl err \<Rightarrow> Inl err
               | Inr db2 \<Rightarrow>
                   Inr (\<lparr>task_id = taskId, state_resp = toState,
                         version_resp = nextVersion\<rparr>, db2)))"

text \<open>
  \<^verbatim>\<open>ORDER BY created_at DESC\<close>. SQL leaves the order of rows with equal keys open;
  SQLite returns them in the order in which its query plan visits the rows of the table
  (an index scan, forwards or backwards), which the source does not fix. The queries
  below therefore take that order as a parameter \<open>scan\<close>, a rearrangement of the table,
  and \<open>order_desc\<close> is a stable sort of the rows it is given: every order that the
  engine can return is the result for some \<open>scan\<close>.
  \<^verbatim>\<open>LIMIT n\<close> is read by SQLite as no bound when \<open>n\<close> is negative.
\<close>

definition order_desc :: "('a \<Rightarrow> int) \<Rightarrow> 'a list \<Rightarrow> 'a list" where
  "order_desc f rows = sort_key (\<lambda>r. - f r) rows"

definition sql_limit :: "int \<Rightarrow> 'a list \<Rightarrow> 'a list" where
  "sql_limit n rows = (if n < 0 then rows else take (nat n) rows)"

text \<open>
  \<^verbatim>\<open>TaskRepository.findById(taskId, tenantId)\<close>: the task of this tenant with its
  twenty most recent events, or \<open>None\<close> for \<^verbatim>\<open>null\<close>.
\<close>

definition findById ::
  "(TaskEvent list \<Rightarrow> TaskEvent list) \<Rightarrow> string \<Rightarrow> string \<Rightarrow> Database \<Rightarrow>
     (Task \<times> TaskEvent list) option" where
  "findById scan taskId tenant db =
     (case find (\<lambda>t. id_task t = taskId \<and> tenantId t = tenant) (tasks db) of
        None \<Rightarrow> None
      | Some task \<Rightarrow>
          Some (task, sql_limit 20 (order_desc createdAt_event
                        (filter (\<lambda>e. taskId_event e = taskId) (scan (taskEvents db))))))"

text \<open>
  The filters of \<^verbatim>\<open>list\<close>. \<open>None\<close> is an absent field; for \<open>limit_f\<close> it also stands
  for \<^verbatim>\<open>NaN\<close>, which \<^verbatim>\<open>filters.limit || 20\<close> treats like \<^verbatim>\<open>undefined\<close> and \<open>0\<close>.
\<close>

record Filters =
  state_f :: "string option"
  assigneeId_f :: "string option"
  limit_f :: "int option"
  cursor_f :: "string option"

fun state_text :: "TaskState \<Rightarrow> string" where
  "state_text NEW = ''NEW''"
| "state_text IN_PROGRESS = ''IN_PROGRESS''"
| "state_text DONE = ''DONE''"
| "state_text CANCELLED = ''CANCELLED''"

text \<open>
  \<^verbatim>\<open>TaskRepository.list(workspaceId, tenantId, filters)\<close>. JavaScript's \<^verbatim>\<open>parseInt\<close>
  is a parameter: \<open>None\<close> is \<^verbatim>\<open>NaN\<close>, and the theorems hold for every such function.
  The list \<open>conditions\<close> grows as in the source and the rows that satisfy all of its
  members are ordered and cut. The result is the list of the selected rows with their
  stored columns.
\<close>

definition list_tasks ::
  "(string \<Rightarrow> int option) \<Rightarrow> (Task list \<Rightarrow> Task list) \<Rightarrow> string \<Rightarrow> string \<Rightarrow>
     Filters \<Rightarrow> Database \<Rightarrow> Task list" where
  "list_tasks parseInt scan workspace tenant filters db =
     (let conditions =
            [\<lambda>t. workspaceId t = workspace, \<lambda>t. tenantId t = tenant]
            @ (case state_f filters of
                 None \<Rightarrow> []
               | Some s \<Rightarrow> if s \<noteq> [] then [\<lambda>t. state_text (state t) = s] else [])
            @ (case assigneeId_f filters of
                 None \<Rightarrow> []
               | Some a \<Rightarrow> if a \<noteq> [] then [\<lambda>t. assigneeId t = Some a] else [])
            @ (case cursor_f filters of
                 None \<Rightarrow> []
               | Some c \<Rightarrow>
                   if c \<noteq> [] then
                     (case parseInt c of
                        None \<Rightarrow> []
                      | Some cursorTimestamp \<Rightarrow> [\<lambda>t. createdAt t < cursorTimestamp])
                   else []);
          limit = (case limit_f filters of
                     None \<Rightarrow> 20
                   | Some n \<Rightarrow> if n \<noteq> 0 then n else 20)
      in sql_limit limit
           (order_desc createdAt
              (filter (\<lambda>t. list_all (\<lambda>c. c t) conditions) (scan (tasks db)))))"

section \<open>The transition endpoint (src/controllers/taskController.ts)\<close>

text \<open>
  A field of the parsed JSON body: absent, present but not a string, or a string.
\<close>

datatype BodyField = Missing | NotAString | Str string

text \<open>
  The parts of the request that \<^verbatim>\<open>TaskController.transition\<close> reads. The tenant and
  version headers are tested for absence by the controller and are optional here; the
  role and user headers are cast to strings by the source and are strings here.
\<close>

record Request =
  x_tenant_id :: "string option"
  x_role :: string
  x_user_id :: string
  if_match_version :: "string option"
  param_workspaceId :: string
  param_taskId :: string
  body_to_state :: BodyField

text \<open>
  \<^verbatim>\<open>transitionTaskSchema\<close>: \<^verbatim>\<open>to_state\<close> is one of IN_PROGRESS, DONE, CANCELLED;
  \<open>None\<close> is a \<^verbatim>\<open>ZodError\<close>.
\<close>

fun transitionTaskSchema :: "BodyField \<Rightarrow> TaskState option" where
  "transitionTaskSchema (Str s) =
     (if s = ''IN_PROGRESS'' then Some IN_PROGRESS
      else if s = ''DONE'' then Some DONE
      else if s = ''CANCELLED'' then Some CANCELLED
      else None)"
| "transitionTaskSchema _ = None"

text \<open>
  The JSON body of a response; the list of issues of a \<^verbatim>\<open>ZodError\<close> is not
  represented further.
\<close>

datatype ResponseBody = ErrorBody string | ZodIssues | ResultBody Response

type_synonym HttpResponse = "nat \<times> ResponseBody"

text \<open>
  \<^verbatim>\<open>TaskController.transition(req, res)\<close>, run without another request in between:
  the response and the database afterwards. \<^verbatim>\<open>parseInt(undefined)\<close> is \<^verbatim>\<open>NaN\<close>;
  \<open>scan\<close> is the order in which the engine visits the events of the timeline.
\<close>

definition TaskController_transition ::
  "(string \<Rightarrow> int option) \<Rightarrow> (TaskEvent list \<Rightarrow> TaskEvent list) \<Rightarrow> Env \<Rightarrow> Request \<Rightarrow>
     Database \<Rightarrow> HttpResponse \<times> Database" where
  "TaskController_transition parseInt scan env req db =
     (let ifMatchVersion = (case if_match_version req of
                              None \<Rightarrow> None
                            | Some s \<Rightarrow> parseInt s)
      in if \<not> truthy (x_tenant_id req) then
           ((400, ErrorBody ''X-Tenant-Id header required''), db)
         else case ifMatchVersion of
           None \<Rightarrow> ((400, ErrorBody ''If-Match-Version header required''), db)
         | Some v \<Rightarrow>
            (case transitionTaskSchema (body_to_state req) of
               None \<Rightarrow> ((400, ZodIssues), db)
             | Some to_state \<Rightarrow>
                (case findById scan (param_taskId req)
                        (case x_tenant_id req of Some t \<Rightarrow> t | None \<Rightarrow> []) db of
                   None \<Rightarrow> ((404, ErrorBody ''Task not found''), db)
                 | Some (task, timeline) \<Rightarrow>
                    if workspaceId task \<noteq> param_workspaceId req then
                      ((404, ErrorBody ''Task not found in this workspace''), db)
                    else if \<not> validateTransition (state task) to_state (x_role req)
                                 (assigneeId task) (x_user_id req) then
                      ((409, ErrorBody ''Invalid transition or unauthorized''), db)
                    else
                      (case transition env (param_taskId req) to_state v db of
                         Inr (result, db') \<Rightarrow> ((200, ResultBody result), db')
                       | Inl VersionMismatch \<Rightarrow> ((409, ErrorBody ''Version mismatch''), db)
                       | Inl e \<Rightarrow> ((500, ErrorBody (message e)), db)))))"

section \<open>Concrete requests and stores for the examples\<close>

text \<open>
  JavaScript's \<^verbatim>\<open>parseInt(string)\<close> without a radix, on strings of 8-bit characters,
  as the instance of the \<open>parseInt\<close> parameter in the examples: leading white space
  is skipped, a sign is read, a prefix \<^verbatim>\<open>0x\<close> or \<^verbatim>\<open>0X\<close> selects radix 16, the longest
  run of digits of the radix is read, and its value, rounded to a double, is the
  result; without a digit the result is \<^verbatim>\<open>NaN\<close>, here \<open>None\<close>. (A run of digits worth
  \<open>2^1024\<close> or more, which the builtin reads as \<^verbatim>\<open>Infinity\<close>, has no counterpart
  in \<open>int option\<close>.)
\<close>

definition is_space :: "char \<Rightarrow> bool" where
  "is_space c =
     (c \<in> set [CHR 0x09, CHR 0x0A, CHR 0x0B, CHR 0x0C, CHR 0x0D, CHR 0x20, CHR 0xA0])"

definition digit_value :: "nat \<Rightarrow> char \<Rightarrow> nat option" where
  "digit_value radix c =
     (let i = (if c \<in> set ''0123456789abcdef''
               then length (takeWhile (\<lambda>d. d \<noteq> c) ''0123456789abcdef'')
               else if c \<in> set ''ABCDEF''
               then 10 + length (takeWhile (\<lambda>d. d \<noteq> c) ''ABCDEF'')
               else 16)
      in if i < radix then Some i else None)"

fun digits_value :: "nat \<Rightarrow> nat \<Rightarrow> string \<Rightarrow> nat" where
  "digits_value radix acc [] = acc"
| "digits_value radix acc (c # cs) =
     (case digit_value radix c of
        None \<Rightarrow> acc
      | Some d \<Rightarrow> digits_value radix (radix * acc + d) cs)"

definition parseInt_js :: "string \<Rightarrow> int option" where
  "parseInt_js s =
     (let s1 = dropWhile is_space s;
          negative = (case s1 of c # cs \<Rightarrow> c = CHR ''-'' | [] \<Rightarrow> False);
          s2 = (case s1 of
                  c # cs \<Rightarrow> if c = CHR ''-'' \<or> c = CHR ''+'' then cs else s1
                | [] \<Rightarrow> s1);
          hex = (case s2 of
                   c # d # cs \<Rightarrow> c = CHR ''0'' \<and> (d = CHR ''x'' \<or> d = CHR ''X'')
                 | _ \<Rightarrow> False);
          radix = (if hex then 16 else 10);
          s3 = (if hex then drop 2 s2 else s2)
      in case s3 of
           [] \<Rightarrow> None
         | c # cs \<Rightarrow>
            (case digit_value radix c of
               None \<Rightarrow> None
             | Some d \<Rightarrow>
                 Some (to_double ((if negative then - 1 else 1) *
                                  int (digits_value radix d cs)))))"

definition env_a :: Env where
  "env_a = \<lparr>uuidv4 = ''e1'', unixepoch = 1000, dateNow = 1000\<rparr>"

definition env_b :: Env where
  "env_b = \<lparr>uuidv4 = ''e2'', unixepoch = 1005, dateNow = 1005\<rparr>"

definition env_c :: Env where
  "env_c = \<lparr>uuidv4 = ''e3'', unixepoch = 1010, dateNow = 1010\<rparr>"

definition input_a :: TaskInput where
  "input_a = \<lparr>id_task = ''t1'', tenantId = ''tenant_1'', workspaceId = ''ws_1'',
               title = ''Implement auth'', priority = HIGH, state = NEW,
               assigneeId = None\<rparr>"

definition input_b :: TaskInput where
  "input_b = \<lparr>id_task = ''t2'', tenantId = ''tenant_2'', workspaceId = ''ws_2'',
               title = ''Write docs'', priority = LOW, state = NEW,
               assigneeId = None\<rparr>"

definition task_a :: Task where
  "task_a = \<lparr>id_task = ''t1'', tenantId = ''tenant_1'', workspaceId = ''ws_1'',
              title = ''Implement auth'', priority = HIGH, state = NEW,
              assigneeId = None, version = 1, createdAt = 1000, updatedAt = 1000\<rparr>"

definition task_b :: Task where
  "task_b = \<lparr>id_task = ''t2'', tenantId = ''tenant_2'', workspaceId = ''ws_2'',
              title = ''Write docs'', priority = LOW, state = NEW,
              assigneeId = None, version = 1, createdAt = 1005, updatedAt = 1005\<rparr>"

definition event_a :: TaskEvent where
  "event_a = \<lparr>id_event = ''e1'', taskId_event = ''t1'', eventType = ''TaskCreated'',
               payload = TaskCreatedPayload input_a 1, createdAt_event = 1000\<rparr>"

definition event_b :: TaskEvent where
  "event_b = \<lparr>id_event = ''e2'', taskId_event = ''t2'', eventType = ''TaskCreated'',
               payload = TaskCreatedPayload input_b 1, createdAt_event = 1005\<rparr>"

definition response_a :: Response where
  "response_a = \<lparr>task_id = ''t1'', state_resp = NEW, version_resp = 1\<rparr>"

definition key_a :: IdempotencyKey where
  "key_a = \<lparr>key = ''key-1'', responsePayload = response_a, createdAt_key = 1000\<rparr>"

definition empty_db :: Database where
  "empty_db = \<lparr>tasks = [], taskEvents = [], idempotencyKeys = []\<rparr>"

text \<open>The store after the first task was created without a key, and with the key.\<close>

definition store_a :: Database where
  "store_a = \<lparr>tasks = [task_a], taskEvents = [event_a], idempotencyKeys = []\<rparr>"

definition store_a_keyed :: Database where
  "store_a_keyed = \<lparr>tasks = [task_a], taskEvents = [event_a], idempotencyKeys = [key_a]\<rparr>"

text \<open>The first task after it was assigned, started and completed, at version 4.\<close>

definition task_done :: Task where
  "task_done = \<lparr>id_task = ''t1'', tenantId = ''tenant_1'', workspaceId = ''ws_1'',
                 title = ''Implement auth'', priority = HIGH, state = DONE,
                 assigneeId = Some ''user_123'', version = 4, createdAt = 1000,
                 updatedAt = 1004\<rparr>"

definition store_done :: Database where
  "store_done =
     \<lparr>tasks = [task_done],
      taskEvents =
        [event_a,
         \<lparr>id_event = ''e4'', taskId_event = ''t1'', eventType = ''TaskAssigned'',
          payload = TaskAssignedPayload ''user_123'', createdAt_event = 1002\<rparr>,
         \<lparr>id_event = ''e5'', taskId_event = ''t1'', eventType = ''TaskStateChanged'',
          payload = TaskStateChangedPayload NEW IN_PROGRESS, createdAt_event = 1003\<rparr>,
         \<lparr>id_event = ''e6'', taskId_event = ''t1'', eventType = ''TaskStateChanged'',
          payload = TaskStateChangedPayload IN_PROGRESS DONE, createdAt_event = 1004\<rparr>],
      idempotencyKeys = []\<rparr>"

text \<open>A manager's request to cancel the first task at its stored version 4.\<close>

definition request_cancel :: Request where
  "request_cancel =
     \<lparr>x_tenant_id = Some ''tenant_1'', x_role = ''manager'', x_user_id = ''boss'',
      if_match_version = Some ''4'', param_workspaceId = ''ws_1'', param_taskId = ''t1'',
      body_to_state = Str ''CANCELLED''\<rparr>"

text \<open>Three tasks of one workspace, stored in the order of their creation.\<close>

definition store_three :: Database where
  "store_three =
     \<lparr>tasks = [task_a,
               task_a\<lparr>id_task := ''t3'', createdAt := 1005, updatedAt := 1005\<rparr>,
               task_a\<lparr>id_task := ''t4'', createdAt := 1010, updatedAt := 1010\<rparr>],
      taskEvents = [], idempotencyKeys = []\<rparr>"

text \<open>
  The same three tasks with the cursor \<open>abc\<close>, which is not a number, and with the
  empty cursor.
\<close>

definition filters_abc :: Filters where
  "filters_abc = \<lparr>state_f = None, assigneeId_f = None, limit_f = None,
                   cursor_f = Some ''abc''\<rparr>"

definition filters_empty_cursor :: Filters where
  "filters_empty_cursor = \<lparr>state_f = None, assigneeId_f = None, limit_f = None,
                            cursor_f = Some []\<rparr>"

text \<open>The first task stored at version \<open>2^53\<close>.\<close>

definition task_big :: Task where
  "task_big = \<lparr>id_task = ''t1'', tenantId = ''tenant_1'', workspaceId = ''ws_1'',
                title = ''Implement auth'', priority = HIGH, state = NEW,
                assigneeId = None, version = 9007199254740992, createdAt = 1000,
                updatedAt = 1000\<rparr>"

definition store_big :: Database where
  "store_big = \<lparr>tasks = [task_big], taskEvents = [event_a], idempotencyKeys = []\<rparr>"

definition filters_cursor :: Filters where
  "filters_cursor = \<lparr>state_f = None, assigneeId_f = None, limit_f = None,
                      cursor_f = Some ''1010''\<rparr>"

section \<open>The state machine\<close>

text \<open>
  C5. For every current state, requested state, role, assignee and actor,
  \<open>validateTransition\<close> is true exactly when the edge is one of NEW to IN_PROGRESS,
  NEW to CANCELLED, IN_PROGRESS to DONE, IN_PROGRESS to CANCELLED, and the role overlay
  holds: a manager asks for CANCELLED; an agent is the assignee and the edge is NEW to
  IN_PROGRESS or IN_PROGRESS to DONE; every other role is rejected.
\<close>

theorem validateTransition_iff:
  "validateTransition currentState toState role assignee actorId =
     ((currentState = NEW \<and> toState = IN_PROGRESS \<or>
       currentState = NEW \<and> toState = CANCELLED \<or>
       currentState = IN_PROGRESS \<and> toState = DONE \<or>
       currentState = IN_PROGRESS \<and> toState = CANCELLED) \<and>
      (role = ''manager'' \<and> toState = CANCELLED \<or>
       role = ''agent'' \<and> assignee = Some actorId \<and>
         (currentState = NEW \<and> toState = IN_PROGRESS \<or>
          currentState = IN_PROGRESS \<and> toState = DONE)))"
  by (cases currentState; cases toState; simp add: validateTransition_def)

text \<open>
  C7. \<open>canAssign\<close> is true exactly when the role is manager and the state is NEW or
  IN_PROGRESS.
\<close>

theorem canAssign_iff:
  "canAssign st role = (role = ''manager'' \<and> (st = NEW \<or> st = IN_PROGRESS))"
  by (simp add: canAssign_def)

lemma validateTransition_terminal:
  "st = DONE \<or> st = CANCELLED \<Longrightarrow> \<not> validateTransition st toState role a u"
  by (auto simp: validateTransition_def)

lemma validateTransition_NEW_DONE: "\<not> validateTransition NEW DONE role a u"
  by (simp add: validateTransition_def)

section \<open>Integers that JavaScript reads exactly\<close>

lemma double_ulp_small: "n < 9007199254740992 \<Longrightarrow> double_ulp n = 1"
  by (subst double_ulp.simps) simp

lemma double_ulp_large:
  "9007199254740992 \<le> n \<Longrightarrow> double_ulp n = 2 * double_ulp (n div 2)"
  by (subst double_ulp.simps) simp

lemmas to_double_eval = to_double_def Let_def double_ulp_small double_ulp_large

text \<open>Up to \<open>2^53\<close> in absolute value every integer is a double.\<close>

lemma to_double_safe:
  assumes "\<bar>n\<bar> \<le> 9007199254740992"
  shows "to_double n = n"
proof (cases "\<bar>n\<bar> < 9007199254740992")
  case True
  then have "double_ulp (nat \<bar>n\<bar>) = 1"
    by (simp add: double_ulp_small)
  then have "to_double n = sgn n * \<bar>n\<bar>"
    by (simp add: to_double_def)
  then show ?thesis by (simp add: mult_sgn_abs)
next
  case False
  with assms have "n = 9007199254740992 \<or> n = - 9007199254740992" by arith
  then show ?thesis
  proof
    assume "n = 9007199254740992"
    then show ?thesis by (simp add: to_double_eval)
  next
    assume "n = - 9007199254740992"
    then show ?thesis by (simp add: to_double_eval)
  qed
qed

text \<open>From \<open>2^53\<close> on, adding 1 can leave a number as it is or skip to the next but one.\<close>

lemma to_double_range:
  "- 9007199254740992 \<le> n \<Longrightarrow> n \<le> 9007199254740992 \<Longrightarrow> to_double n = n"
  by (rule to_double_safe) arith

lemma to_double_above:
  "to_double 9007199254740993 = 9007199254740992"
  "to_double 9007199254740995 = 9007199254740996"
  by (simp_all add: to_double_eval)

lemmas parseInt_js_eval =
  parseInt_js_def is_space_def digit_value_def Let_def to_double_safe

section \<open>Rows found and rows updated\<close>

lemma find_Some_holds: "find P xs = Some x \<Longrightarrow> P x \<and> x \<in> set xs"
  by (induction xs) (auto split: if_splits)

lemma find_map_preserved:
  "(\<And>x. P (g x) = P x) \<Longrightarrow> find P (map g xs) = map_option g (find P xs)"
  by (induction xs) simp_all

lemma find_snoc:
  "find P (xs @ [x]) =
     (case find P xs of Some y \<Rightarrow> Some y | None \<Rightarrow> if P x then Some x else None)"
  by (induction xs) simp_all

text \<open>
  The row that the read inside the transaction returns is, after the update, the same
  row changed by \<open>f\<close> when its version was the expected one.
\<close>

lemma find_update_tasks:
  assumes "\<And>t. id_task (f t) = id_task t"
  shows "find (\<lambda>t. id_task t = taskId) (tasks (update_tasks taskId v f db)) =
         map_option (\<lambda>t. if version t = v then f t else t)
           (find (\<lambda>t. id_task t = taskId) (tasks db))"
proof -
  let ?g = "\<lambda>t. if id_task t = taskId \<and> version t = v then f t else t"
  have "find (\<lambda>t. id_task t = taskId) (map ?g (tasks db)) =
        map_option ?g (find (\<lambda>t. id_task t = taskId) (tasks db))"
    by (rule find_map_preserved) (simp add: assms)
  moreover have "map_option ?g (find (\<lambda>t. id_task t = taskId) (tasks db)) =
        map_option (\<lambda>t. if version t = v then f t else t)
           (find (\<lambda>t. id_task t = taskId) (tasks db))"
    by (cases "find (\<lambda>t. id_task t = taskId) (tasks db)") (auto dest: find_Some_holds)
  ultimately show ?thesis by (simp add: update_tasks_def)
qed

lemma filter_update_tasks:
  assumes "\<And>t. id_task (f t) = id_task t"
  shows "filter (\<lambda>u. id_task u \<noteq> taskId) (tasks (update_tasks taskId v f db)) =
         filter (\<lambda>u. id_task u \<noteq> taskId) (tasks db)"
proof -
  have "filter (\<lambda>u. id_task u \<noteq> taskId)
          (map (\<lambda>t. if id_task t = taskId \<and> version t = v then f t else t) xs) =
        filter (\<lambda>u. id_task u \<noteq> taskId) xs" for xs
    by (induction xs) (simp_all add: assms)
  then show ?thesis by (simp add: update_tasks_def)
qed

lemma update_tasks_other [simp]:
  "taskEvents (update_tasks taskId v f db) = taskEvents db"
  "idempotencyKeys (update_tasks taskId v f db) = idempotencyKeys db"
  by (simp_all add: update_tasks_def)

section \<open>What a successful call has done\<close>

lemma assign_Inr:
  assumes "assign env taskId a v db = Inr (r, db')"
  obtains t where
    "find (\<lambda>t. id_task t = taskId) (tasks db) = Some t"
    "to_double (version t) = v" "state t \<noteq> DONE" "state t \<noteq> CANCELLED"
    "uuidv4 env \<notin> set (map id_event (taskEvents db))"
    "r = \<lparr>task_id = taskId, state_resp = state t, version_resp = to_double (v + 1)\<rparr>"
    "db' = (update_tasks taskId v
              (\<lambda>t. t\<lparr>assigneeId := Some a, version := to_double (v + 1),
                      updatedAt := dateNow env\<rparr>) db)
            \<lparr>taskEvents := taskEvents db @
               [\<lparr>id_event = uuidv4 env, taskId_event = taskId, eventType = ''TaskAssigned'',
                 payload = TaskAssignedPayload a, createdAt_event = unixepoch env\<rparr>]\<rparr>"
  using assms
  by (auto simp: assign_def insert_event_def Let_def split: option.splits if_splits)

lemma transition_Inr:
  assumes "transition env taskId toState v db = Inr (r, db')"
  obtains t where
    "find (\<lambda>t. id_task t = taskId) (tasks db) = Some t"
    "to_double (version t) = v"
    "uuidv4 env \<notin> set (map id_event (taskEvents db))"
    "r = \<lparr>task_id = taskId, state_resp = toState, version_resp = to_double (v + 1)\<rparr>"
    "db' = (update_tasks taskId v
              (\<lambda>t. t\<lparr>state := toState, version := to_double (v + 1),
                      updatedAt := dateNow env\<rparr>) db)
            \<lparr>taskEvents := taskEvents db @
               [\<lparr>id_event = uuidv4 env, taskId_event = taskId,
                 eventType = ''TaskStateChanged'',
                 payload = TaskStateChangedPayload (state t) toState,
                 createdAt_event = unixepoch env\<rparr>]\<rparr>"
  using assms
  by (auto simp: transition_def insert_event_def Let_def split: option.splits if_splits)

text \<open>
  The store-level \<open>transition\<close> throws for an absent row, for a version that differs,
  and when the driver rejects the event row; it has no other guard.
\<close>

lemma transition_Inl:
  assumes "transition env taskId toState v db = Inl e"
  shows "e = TaskNotFound \<or> e = VersionMismatch \<or>
         e = SqliteError ''UNIQUE constraint failed: task_events.id''"
  using assms
  by (auto simp: transition_def insert_event_def Let_def split: option.splits if_splits)

lemma create_existing:
  assumes "existing_key ik db = Some rec"
  shows "create env task ik db = Inr (responsePayload rec, db)"
  using assms by (simp add: create_def)

lemma create_cached:
  assumes "k \<noteq> []" and "find (\<lambda>x. key x = k) (idempotencyKeys db) = Some rec"
  shows "create env task (Some k) db = Inr (responsePayload rec, db)"
  using assms by (simp add: create_def existing_key_def)

lemma create_fresh:
  assumes "existing_key ik db = None" and "create env task ik db = Inr (r, db')"
  shows "r = \<lparr>task_id = id_task task, state_resp = state task, version_resp = 1\<rparr> \<and>
         idempotencyKeys db' =
           (if truthy ik
            then idempotencyKeys db @
                   [\<lparr>key = (case ik of Some k \<Rightarrow> k | None \<Rightarrow> []), responsePayload = r,
                     createdAt_key = unixepoch env\<rparr>]
            else idempotencyKeys db)"
proof -
  let ?row = "\<lparr>id_task = id_task task, tenantId = tenantId task,
               workspaceId = workspaceId task, title = title task,
               priority = priority task, state = state task,
               assigneeId = assigneeId task, version = 1,
               createdAt = unixepoch env, updatedAt = unixepoch env\<rparr>"
  from assms have "id_task task \<notin> set (map id_task (tasks db))"
    by (simp add: create_def insert_task_def split: if_splits)
  then have 1: "insert_task ?row db = Inr (db\<lparr>tasks := tasks db @ [?row]\<rparr>)"
    by (simp add: insert_task_def)
  from assms 1 have "uuidv4 env \<notin> set (map id_event (taskEvents db))"
    by (simp add: create_def insert_event_def split: if_splits)
  with assms 1 show ?thesis
    by (auto simp: create_def insert_event_def insert_key_def Let_def split: if_splits)
qed

lemma create_stores_response:
  assumes "k \<noteq> []" and "create env task (Some k) db = Inr (r, db')"
  shows "\<exists>rec. find (\<lambda>x. key x = k) (idempotencyKeys db') = Some rec \<and>
               responsePayload rec = r"
proof (cases "existing_key (Some k) db")
  case (Some rec)
  with assms(2) have "r = responsePayload rec" "db' = db"
    by (simp_all add: create_existing)
  with Some assms(1) show ?thesis by (simp add: existing_key_def)
next
  case None
  with assms(1) have "find (\<lambda>x. key x = k) (idempotencyKeys db) = None"
    by (simp add: existing_key_def)
  moreover from create_fresh[OF None assms(2)] assms(1)
  have "idempotencyKeys db' = idempotencyKeys db @
          [\<lparr>key = k, responsePayload = r, createdAt_key = unixepoch env\<rparr>]"
    by (simp add: truthy_def)
  ultimately show ?thesis by (simp add: find_snoc)
qed

lemma create_keeps_record:
  assumes "create env task ik db = Inr (r, db')"
    and "find (\<lambda>x. key x = k) (idempotencyKeys db) = Some rec"
  shows "find (\<lambda>x. key x = k) (idempotencyKeys db') = Some rec"
proof (cases "existing_key ik db")
  case (Some e)
  with assms(1) have "db' = db" by (simp add: create_existing)
  with assms(2) show ?thesis by simp
next
  case None
  from create_fresh[OF None assms(1)] assms(2) show ?thesis
    by (simp add: find_snoc split: if_splits)
qed

section \<open>Optimistic locking and the outbox\<close>

text \<open>
  C4, as amended. Every accepted mutation, a successful \<open>assign\<close> or \<open>transition\<close>,
  appends exactly one event row of the matching kind: TaskAssigned with the new
  assignee, or TaskStateChanged with the states from and to. When the stored version
  of the task is at least \<open>-2^53\<close> and below \<open>2^53\<close>, the range in which JavaScript
  numbers count in steps of 1, the mutation leaves the stored task with its version
  increased by exactly 1, and the response carries that version.
\<close>

theorem accepted_mutation_version_and_event:
  "(assign env taskId a v db = Inr (r, db') \<longrightarrow>
      (\<exists>t. find (\<lambda>t. id_task t = taskId) (tasks db) = Some t \<and>
           taskEvents db' = taskEvents db @
             [\<lparr>id_event = uuidv4 env, taskId_event = taskId, eventType = ''TaskAssigned'',
               payload = TaskAssignedPayload a, createdAt_event = unixepoch env\<rparr>] \<and>
           (- 9007199254740992 \<le> version t \<and> version t < 9007199254740992 \<longrightarrow>
              find (\<lambda>t. id_task t = taskId) (tasks db') =
                Some (t\<lparr>assigneeId := Some a, version := version t + 1,
                         updatedAt := dateNow env\<rparr>) \<and>
              version_resp r = version t + 1))) \<and>
   (transition env taskId toState v db = Inr (r2, db2) \<longrightarrow>
      (\<exists>t. find (\<lambda>t. id_task t = taskId) (tasks db) = Some t \<and>
           taskEvents db2 = taskEvents db @
             [\<lparr>id_event = uuidv4 env, taskId_event = taskId,
               eventType = ''TaskStateChanged'',
               payload = TaskStateChangedPayload (state t) toState,
               createdAt_event = unixepoch env\<rparr>] \<and>
           (- 9007199254740992 \<le> version t \<and> version t < 9007199254740992 \<longrightarrow>
              find (\<lambda>t. id_task t = taskId) (tasks db2) =
                Some (t\<lparr>state := toState, version := version t + 1,
                         updatedAt := dateNow env\<rparr>) \<and>
              version_resp r2 = version t + 1)))"
proof (intro conjI impI)
  assume "assign env taskId a v db = Inr (r, db')"
  then obtain t where t: "find (\<lambda>t. id_task t = taskId) (tasks db) = Some t"
    "to_double (version t) = v"
    "r = \<lparr>task_id = taskId, state_resp = state t, version_resp = to_double (v + 1)\<rparr>"
    "db' = (update_tasks taskId v
              (\<lambda>t. t\<lparr>assigneeId := Some a, version := to_double (v + 1),
                      updatedAt := dateNow env\<rparr>) db)
            \<lparr>taskEvents := taskEvents db @
               [\<lparr>id_event = uuidv4 env, taskId_event = taskId, eventType = ''TaskAssigned'',
                 payload = TaskAssignedPayload a, createdAt_event = unixepoch env\<rparr>]\<rparr>"
    by (rule assign_Inr)
  have safe: "find (\<lambda>t. id_task t = taskId) (tasks db') =
                Some (t\<lparr>assigneeId := Some a, version := version t + 1,
                         updatedAt := dateNow env\<rparr>) \<and>
              version_resp r = version t + 1"
    if b: "- 9007199254740992 \<le> version t \<and> version t < 9007199254740992"
  proof -
    from b have "to_double (version t) = version t"
      and "to_double (version t + 1) = version t + 1"
      by (simp_all add: to_double_range)
    with t(2) have v: "v = version t" "to_double (v + 1) = version t + 1" by simp_all
    have "find (\<lambda>t. id_task t = taskId) (tasks db') =
            Some (t\<lparr>assigneeId := Some a, version := version t + 1,
                     updatedAt := dateNow env\<rparr>)"
      using t(1) v by (simp add: t(4) find_update_tasks)
    then show ?thesis using v by (simp add: t(3))
  qed
  show "\<exists>t. find (\<lambda>t. id_task t = taskId) (tasks db) = Some t \<and>
           taskEvents db' = taskEvents db @
             [\<lparr>id_event = uuidv4 env, taskId_event = taskId, eventType = ''TaskAssigned'',
               payload = TaskAssignedPayload a, createdAt_event = unixepoch env\<rparr>] \<and>
           (- 9007199254740992 \<le> version t \<and> version t < 9007199254740992 \<longrightarrow>
              find (\<lambda>t. id_task t = taskId) (tasks db') =
                Some (t\<lparr>assigneeId := Some a, version := version t + 1,
                         updatedAt := dateNow env\<rparr>) \<and>
              version_resp r = version t + 1)"
  proof (intro exI conjI impI)
    show "find (\<lambda>t. id_task t = taskId) (tasks db) = Some t" by (rule t(1))
    show "taskEvents db' = taskEvents db @
             [\<lparr>id_event = uuidv4 env, taskId_event = taskId, eventType = ''TaskAssigned'',
               payload = TaskAssignedPayload a, createdAt_event = unixepoch env\<rparr>]"
      by (simp add: t(4))
  qed (use safe in simp_all)
next
  assume "transition env taskId toState v db = Inr (r2, db2)"
  then obtain t where t: "find (\<lambda>t. id_task t = taskId) (tasks db) = Some t"
    "to_double (version t) = v"
    "r2 = \<lparr>task_id = taskId, state_resp = toState, version_resp = to_double (v + 1)\<rparr>"
    "db2 = (update_tasks taskId v
              (\<lambda>t. t\<lparr>state := toState, version := to_double (v + 1),
                      updatedAt := dateNow env\<rparr>) db)
            \<lparr>taskEvents := taskEvents db @
               [\<lparr>id_event = uuidv4 env, taskId_event = taskId,
                 eventType = ''TaskStateChanged'',
                 payload = TaskStateChangedPayload (state t) toState,
                 createdAt_event = unixepoch env\<rparr>]\<rparr>"
    by (rule transition_Inr)
  have safe: "find (\<lambda>t. id_task t = taskId) (tasks db2) =
                Some (t\<lparr>state := toState, version := version t + 1,
                         updatedAt := dateNow env\<rparr>) \<and>
              version_resp r2 = version t + 1"
    if b: "- 9007199254740992 \<le> version t \<and> version t < 9007199254740992"
  proof -
    from b have "to_double (version t) = version t"
      and "to_double (version t + 1) = version t + 1"
      by (simp_all add: to_double_range)
    with t(2) have v: "v = version t" "to_double (v + 1) = version t + 1" by simp_all
    have "find (\<lambda>t. id_task t = taskId) (tasks db2) =
            Some (t\<lparr>state := toState, version := version t + 1,
                     updatedAt := dateNow env\<rparr>)"
      using t(1) v by (simp add: t(4) find_update_tasks)
    then show ?thesis using v by (simp add: t(3))
  qed
  show "\<exists>t. find (\<lambda>t. id_task t = taskId) (tasks db) = Some t \<and>
           taskEvents db2 = taskEvents db @
             [\<lparr>id_event = uuidv4 env, taskId_event = taskId,
               eventType = ''TaskStateChanged'',
               payload = TaskStateChangedPayload (state t) toState,
               createdAt_event = unixepoch env\<rparr>] \<and>
           (- 9007199254740992 \<le> version t \<and> version t < 9007199254740992 \<longrightarrow>
              find (\<lambda>t. id_task t = taskId) (tasks db2) =
                Some (t\<lparr>state := toState, version := version t + 1,
                         updatedAt := dateNow env\<rparr>) \<and>
              version_resp r2 = version t + 1)"
  proof (intro exI conjI impI)
    show "find (\<lambda>t. id_task t = taskId) (tasks db) = Some t" by (rule t(1))
    show "taskEvents db2 = taskEvents db @
             [\<lparr>id_event = uuidv4 env, taskId_event = taskId,
               eventType = ''TaskStateChanged'',
               payload = TaskStateChangedPayload (state t) toState,
               createdAt_event = unixepoch env\<rparr>]"
      by (simp add: t(4))
  qed (use safe in simp_all)
qed

text \<open>
  On the store that holds the first task at version 1, assigning it and starting it
  are both accepted; each leaves version 2 and one more event.
\<close>

theorem accepted_mutation_witness:
  "assign env_b ''t1'' ''user_123'' 1 store_a =
     Inr (\<lparr>task_id = ''t1'', state_resp = NEW, version_resp = 2\<rparr>,
          \<lparr>tasks = [task_a\<lparr>assigneeId := Some ''user_123'', version := 2,
                           updatedAt := 1005\<rparr>],
           taskEvents =
             [event_a,
              \<lparr>id_event = ''e2'', taskId_event = ''t1'', eventType = ''TaskAssigned'',
               payload = TaskAssignedPayload ''user_123'', createdAt_event = 1005\<rparr>],
           idempotencyKeys = []\<rparr>) \<and>
   transition env_b ''t1'' IN_PROGRESS 1 store_a =
     Inr (\<lparr>task_id = ''t1'', state_resp = IN_PROGRESS, version_resp = 2\<rparr>,
          \<lparr>tasks = [task_a\<lparr>state := IN_PROGRESS, version := 2, updatedAt := 1005\<rparr>],
           taskEvents =
             [event_a,
              \<lparr>id_event = ''e2'', taskId_event = ''t1'', eventType = ''TaskStateChanged'',
               payload = TaskStateChangedPayload NEW IN_PROGRESS,
               createdAt_event = 1005\<rparr>],
           idempotencyKeys = []\<rparr>) \<and>
   version task_a = 1"
proof -
  let ?da = "\<lparr>tasks = [task_a\<lparr>assigneeId := Some ''user_123'', version := 2,
                           updatedAt := 1005\<rparr>],
           taskEvents =
             [event_a,
              \<lparr>id_event = ''e2'', taskId_event = ''t1'', eventType = ''TaskAssigned'',
               payload = TaskAssignedPayload ''user_123'', createdAt_event = 1005\<rparr>],
           idempotencyKeys = []\<rparr>"
  let ?dt = "\<lparr>tasks = [task_a\<lparr>state := IN_PROGRESS, version := 2, updatedAt := 1005\<rparr>],
           taskEvents =
             [event_a,
              \<lparr>id_event = ''e2'', taskId_event = ''t1'', eventType = ''TaskStateChanged'',
               payload = TaskStateChangedPayload NEW IN_PROGRESS,
               createdAt_event = 1005\<rparr>],
           idempotencyKeys = []\<rparr>"
  have a: "assign env_b ''t1'' ''user_123'' 1 store_a =
             Inr (\<lparr>task_id = ''t1'', state_resp = NEW, version_resp = 2\<rparr>, ?da)"
    by (simp add: assign_def update_tasks_def insert_event_def env_b_def store_a_def
          task_a_def event_a_def to_double_safe)
  have t: "transition env_b ''t1'' IN_PROGRESS 1 store_a =
             Inr (\<lparr>task_id = ''t1'', state_resp = IN_PROGRESS, version_resp = 2\<rparr>, ?dt)"
    by (simp add: transition_def update_tasks_def insert_event_def env_b_def store_a_def
          task_a_def event_a_def to_double_safe)
  from accepted_mutation_version_and_event
         [where env = env_b and taskId = "''t1''" and a = "''user_123''" and v = 1
            and db = store_a and toState = IN_PROGRESS
            and r = "\<lparr>task_id = ''t1'', state_resp = NEW, version_resp = 2\<rparr>"
            and db' = ?da
            and ?r2.0 = "\<lparr>task_id = ''t1'', state_resp = IN_PROGRESS, version_resp = 2\<rparr>"
            and ?db2.0 = ?dt]
       a t
  show ?thesis by (simp add: store_a_def task_a_def)
qed

text \<open>
  The claim as first stated, for every version, fails at the stored version \<open>2^53\<close>:
  the transition is accepted, and the version in the response and in the stored row
  is \<open>2^53\<close> again, because the JavaScript sum \<open>2^53 + 1\<close> is \<open>2^53\<close>.
\<close>

theorem accepted_mutation_counterexample:
  "find (\<lambda>t. id_task t = ''t1'') (tasks store_big) = Some task_big \<and>
   version task_big = 9007199254740992 \<and>
   transition env_b ''t1'' IN_PROGRESS 9007199254740992 store_big =
     Inr (\<lparr>task_id = ''t1'', state_resp = IN_PROGRESS,
           version_resp = 9007199254740992\<rparr>,
          \<lparr>tasks = [task_big\<lparr>state := IN_PROGRESS, updatedAt := 1005\<rparr>],
           taskEvents =
             [event_a,
              \<lparr>id_event = ''e2'', taskId_event = ''t1'', eventType = ''TaskStateChanged'',
               payload = TaskStateChangedPayload NEW IN_PROGRESS,
               createdAt_event = 1005\<rparr>],
           idempotencyKeys = []\<rparr>) \<and>
   version (task_big\<lparr>state := IN_PROGRESS, updatedAt := 1005\<rparr>) = 9007199254740992"
  by (simp add: transition_def update_tasks_def insert_event_def Let_def env_b_def
        store_big_def task_big_def event_a_def to_double_safe to_double_above)

text \<open>
  C9, as amended. For a stored task that is not terminal and whose version is the
  expected one, a successful \<open>assign\<close> changes, in that task, only the assignee, the
  version and the modification time: state, title, priority, tenant, workspace, id and
  creation time stay as they were, and the state in the response is the state before
  the call. The version is increased by 1 when it is at least \<open>-2^53\<close> and below
  \<open>2^53\<close>. The rows of every other task stay as they were.
\<close>

theorem assign_changes_only_assignee_version_updatedAt:
  assumes "find (\<lambda>t. id_task t = taskId) (tasks db) = Some t"
    and "state t \<noteq> DONE" and "state t \<noteq> CANCELLED" and "version t = v"
    and "assign env taskId a v db = Inr (r, db')"
  shows "\<exists>t'. find (\<lambda>t. id_task t = taskId) (tasks db') = Some t' \<and>
           assigneeId t' = Some a \<and>
           (- 9007199254740992 \<le> version t \<and> version t < 9007199254740992 \<longrightarrow>
              version t' = version t + 1) \<and>
           updatedAt t' = dateNow env \<and>
           state t' = state t \<and> title t' = title t \<and> priority t' = priority t \<and>
           tenantId t' = tenantId t \<and> workspaceId t' = workspaceId t \<and>
           id_task t' = id_task t \<and> createdAt t' = createdAt t \<and>
           state_resp r = state t \<and>
           filter (\<lambda>u. id_task u \<noteq> taskId) (tasks db') =
             filter (\<lambda>u. id_task u \<noteq> taskId) (tasks db)"
proof -
  from assms(5) obtain u where u: "find (\<lambda>t. id_task t = taskId) (tasks db) = Some u"
    "r = \<lparr>task_id = taskId, state_resp = state u, version_resp = to_double (v + 1)\<rparr>"
    "db' = (update_tasks taskId v
              (\<lambda>t. t\<lparr>assigneeId := Some a, version := to_double (v + 1),
                      updatedAt := dateNow env\<rparr>) db)
            \<lparr>taskEvents := taskEvents db @
               [\<lparr>id_event = uuidv4 env, taskId_event = taskId, eventType = ''TaskAssigned'',
                 payload = TaskAssignedPayload a, createdAt_event = unixepoch env\<rparr>]\<rparr>"
    by (rule assign_Inr)
  from u(1) assms(1) have [simp]: "u = t" by simp
  have f: "find (\<lambda>t. id_task t = taskId) (tasks db') =
          Some (t\<lparr>assigneeId := Some a, version := to_double (v + 1),
                   updatedAt := dateNow env\<rparr>)"
    using assms(1,4) by (simp add: u(3) find_update_tasks)
  have o: "filter (\<lambda>u. id_task u \<noteq> taskId) (tasks db') =
           filter (\<lambda>u. id_task u \<noteq> taskId) (tasks db)"
    by (simp add: u(3) filter_update_tasks)
  have s: "to_double (v + 1) = version t + 1"
    if "- 9007199254740992 \<le> version t \<and> version t < 9007199254740992"
    using that assms(4) by (simp add: to_double_range)
  show ?thesis using f o s u(2) by simp
qed

text \<open>
  On the store that holds both tasks, assigning the first at its version 1 changes
  three of its columns and leaves the second row alone.
\<close>

theorem assign_changes_only_witness:
  "assign env_c ''t1'' ''user_7'' 1
       \<lparr>tasks = [task_a, task_b], taskEvents = [event_a, event_b], idempotencyKeys = []\<rparr> =
     Inr (\<lparr>task_id = ''t1'', state_resp = NEW, version_resp = 2\<rparr>,
          \<lparr>tasks = [task_a\<lparr>assigneeId := Some ''user_7'', version := 2,
                           updatedAt := 1010\<rparr>, task_b],
           taskEvents =
             [event_a, event_b,
              \<lparr>id_event = ''e3'', taskId_event = ''t1'', eventType = ''TaskAssigned'',
               payload = TaskAssignedPayload ''user_7'', createdAt_event = 1010\<rparr>],
           idempotencyKeys = []\<rparr>) \<and>
   state task_a = NEW \<and> version task_a = 1"
proof -
  let ?db = "\<lparr>tasks = [task_a, task_b], taskEvents = [event_a, event_b],
               idempotencyKeys = []\<rparr>"
  let ?db' = "\<lparr>tasks = [task_a\<lparr>assigneeId := Some ''user_7'', version := 2,
                           updatedAt := 1010\<rparr>, task_b],
           taskEvents =
             [event_a, event_b,
              \<lparr>id_event = ''e3'', taskId_event = ''t1'', eventType = ''TaskAssigned'',
               payload = TaskAssignedPayload ''user_7'', createdAt_event = 1010\<rparr>],
           idempotencyKeys = []\<rparr>"
  have h1: "find (\<lambda>t. id_task t = ''t1'') (tasks ?db) = Some task_a"
    by (simp add: task_a_def)
  have h2: "state task_a \<noteq> DONE" and h3: "state task_a \<noteq> CANCELLED"
    and h4: "version task_a = 1"
    by (simp_all add: task_a_def)
  have h5: "assign env_c ''t1'' ''user_7'' 1 ?db =
              Inr (\<lparr>task_id = ''t1'', state_resp = NEW, version_resp = 2\<rparr>, ?db')"
    by (simp add: assign_def update_tasks_def insert_event_def env_c_def
          task_a_def task_b_def event_a_def event_b_def to_double_safe)
  from assign_changes_only_assignee_version_updatedAt [OF h1 h2 h3 h4 h5] h5
  show ?thesis by (simp add: task_a_def)
qed

text \<open>
  The claim as first stated, with the version increased by 1 for every version, fails
  at the stored version \<open>2^53\<close>: the task is NEW, the expected version matches, the
  assign is accepted, and the stored version and the version in the response are
  \<open>2^53\<close> as before.
\<close>

theorem assign_version_counterexample:
  "find (\<lambda>t. id_task t = ''t1'') (tasks store_big) = Some task_big \<and>
   state task_big = NEW \<and> version task_big = 9007199254740992 \<and>
   assign env_c ''t1'' ''user_7'' 9007199254740992 store_big =
     Inr (\<lparr>task_id = ''t1'', state_resp = NEW, version_resp = 9007199254740992\<rparr>,
          \<lparr>tasks = [task_big\<lparr>assigneeId := Some ''user_7'', updatedAt := 1010\<rparr>],
           taskEvents =
             [event_a,
              \<lparr>id_event = ''e3'', taskId_event = ''t1'', eventType = ''TaskAssigned'',
               payload = TaskAssignedPayload ''user_7'', createdAt_event = 1010\<rparr>],
           idempotencyKeys = []\<rparr>) \<and>
   version (task_big\<lparr>assigneeId := Some ''user_7'', updatedAt := 1010\<rparr>) =
     9007199254740992"
  by (simp add: assign_def update_tasks_def insert_event_def Let_def env_c_def
        store_big_def task_big_def event_a_def to_double_safe to_double_above)

section \<open>Guards on terminal tasks\<close>

text \<open>
  C2, as amended. For a stored task in a terminal state whose stored version, as the
  code reads it, differs from the expected version, \<open>assign\<close> signals VersionMismatch,
  not InvalidState: the checks run in the order absent row, version, terminal state,
  so for a terminal task InvalidState is signalled only when the versions agree.
\<close>

theorem assign_terminal_version_first:
  assumes "find (\<lambda>t. id_task t = taskId) (tasks db) = Some t"
    and "state t = DONE \<or> state t = CANCELLED"
  shows "assign env taskId a v db =
           Inl (if to_double (version t) \<noteq> v then VersionMismatch else InvalidState)"
  using assms by (auto simp: assign_def)

text \<open>
  The completed task is stored at version 4. Assigning it with the stale version 3 is
  a version mismatch.
\<close>

theorem assign_terminal_version_first_witness:
  "assign env_c ''t1'' ''user_7'' 3 store_done = Inl VersionMismatch"
proof -
  have h1: "find (\<lambda>t. id_task t = ''t1'') (tasks store_done) = Some task_done"
    by (simp add: store_done_def task_done_def)
  have h2: "state task_done = DONE \<or> state task_done = CANCELLED"
    by (simp add: task_done_def)
  from assign_terminal_version_first [OF h1 h2, of env_c "''user_7''" 3]
  show ?thesis by (simp add: task_done_def to_double_safe)
qed

text \<open>
  The claim as first stated, with the terminal-state check before the version check,
  fails: the task is DONE, the expected version 1 is not the stored version 4, and the
  call does not signal InvalidState.
\<close>

theorem assign_terminal_counterexample:
  "find (\<lambda>t. id_task t = ''t1'') (tasks store_done) = Some task_done \<and>
   state task_done = DONE \<and> version task_done = 4 \<and>
   assign env_b ''t1'' ''user_9'' 1 store_done = Inl VersionMismatch \<and>
   assign env_b ''t1'' ''user_9'' 1 store_done \<noteq> Inl InvalidState"
  by (simp add: assign_def store_done_def task_done_def to_double_safe)

lemma findById_Some:
  "findById scan taskId tenant db = Some (task, timeline) \<Longrightarrow>
     task \<in> set (tasks db) \<and> id_task task = taskId \<and> tenantId task = tenant"
  by (auto simp: findById_def split: option.splits dest: find_Some_holds)

text \<open>
  C1, as amended. For a task stored in a terminal state (every row with the requested
  id is DONE or CANCELLED), a transition attempt through \<open>TaskController_transition\<close>,
  which evaluates \<open>validateTransition\<close> on the stored state before it calls the store,
  is answered with an error status (400, 404 or 409) and leaves the database as it
  was, whatever the expected version is.
\<close>

theorem TaskController_transition_terminal:
  assumes "\<forall>t \<in> set (tasks db). id_task t = param_taskId req \<longrightarrow>
             state t = DONE \<or> state t = CANCELLED"
  shows "snd (TaskController_transition parseInt scan env req db) = db \<and>
         fst (fst (TaskController_transition parseInt scan env req db)) \<in> {400, 404, 409}"
  using assms
  by (auto simp: TaskController_transition_def Let_def validateTransition_terminal
           split: option.splits dest!: findById_Some)

text \<open>
  A manager asks to cancel the completed task with its stored version 4: the answer
  is 409 and nothing is written.
\<close>

theorem TaskController_transition_terminal_witness:
  "TaskController_transition parseInt_js id env_b request_cancel store_done =
     ((409, ErrorBody ''Invalid transition or unauthorized''), store_done) \<and>
   state task_done = DONE \<and> version task_done = 4 \<and>
   tasks store_done = [task_done]"
proof -
  have h: "\<forall>t \<in> set (tasks store_done). id_task t = param_taskId request_cancel \<longrightarrow>
             state t = DONE \<or> state t = CANCELLED"
    by (simp add: store_done_def task_done_def)
  have p: "parseInt_js ''4'' = Some 4"
    by (simp add: parseInt_js_eval)
  have "fst (fst (TaskController_transition parseInt_js id env_b request_cancel
                    store_done)) = 409"
    by (simp add: TaskController_transition_def request_cancel_def truthy_def
          p findById_def store_done_def task_done_def validateTransition_def)
  moreover have "snd (fst (TaskController_transition parseInt_js id env_b request_cancel
                    store_done)) = ErrorBody ''Invalid transition or unauthorized''"
    by (simp add: TaskController_transition_def request_cancel_def truthy_def
          p findById_def store_done_def task_done_def validateTransition_def)
  moreover note TaskController_transition_terminal
                  [OF h, of parseInt_js id env_b]
  ultimately show ?thesis
    by (simp add: prod_eq_iff store_done_def task_done_def)
qed

text \<open>
  The claim as first stated, for the store-level \<open>transition\<close>, fails: the task is
  DONE at version 4, and \<open>transition\<close> with the expected version 4 succeeds, sets the
  state to CANCELLED and appends an event.
\<close>

theorem transition_terminal_counterexample:
  "find (\<lambda>t. id_task t = ''t1'') (tasks store_done) = Some task_done \<and>
   state task_done = DONE \<and> version task_done = 4 \<and>
   transition env_b ''t1'' CANCELLED 4 store_done =
     Inr (\<lparr>task_id = ''t1'', state_resp = CANCELLED, version_resp = 5\<rparr>,
          store_done
            \<lparr>tasks := [task_done\<lparr>state := CANCELLED, version := 5, updatedAt := 1005\<rparr>],
             taskEvents := taskEvents store_done @
               [\<lparr>id_event = ''e2'', taskId_event = ''t1'',
                 eventType = ''TaskStateChanged'',
                 payload = TaskStateChangedPayload DONE CANCELLED,
                 createdAt_event = 1005\<rparr>]\<rparr>)"
  by (simp add: transition_def update_tasks_def insert_event_def env_b_def store_done_def
        task_done_def event_a_def to_double_safe)

section \<open>Idempotent creation\<close>

text \<open>
  C3, as amended. For every non-empty idempotency key: when a call of \<open>create\<close> with
  the key has succeeded, a second call with the same key returns the identical
  response (same task id, state and version), inserts no task row, appends no event
  and leaves the idempotency records as they are; and no later successful call of
  \<open>create\<close>, with whatever key, overwrites the record cached for the key.
\<close>

theorem create_twice_same_key:
  assumes "k \<noteq> []" and "create env1 task1 (Some k) db = Inr (r1, db1)"
  shows "(\<exists>r2 db2. create env2 task2 (Some k) db1 = Inr (r2, db2) \<and>
            task_id r2 = task_id r1 \<and> state_resp r2 = state_resp r1 \<and>
            version_resp r2 = version_resp r1 \<and>
            tasks db2 = tasks db1 \<and> taskEvents db2 = taskEvents db1 \<and>
            idempotencyKeys db2 = idempotencyKeys db1) \<and>
         (create env3 task3 ik3 db1 = Inr (r3, db3) \<longrightarrow>
            (\<exists>rec. find (\<lambda>x. key x = k) (idempotencyKeys db1) = Some rec \<and>
                   responsePayload rec = r1 \<and>
                   find (\<lambda>x. key x = k) (idempotencyKeys db3) = Some rec))"
proof -
  from create_stores_response[OF assms] obtain rec where
    rec: "find (\<lambda>x. key x = k) (idempotencyKeys db1) = Some rec" "responsePayload rec = r1"
    by blast
  have "create env2 task2 (Some k) db1 = Inr (r1, db1)"
    using create_cached[OF assms(1) rec(1)] rec(2) by simp
  moreover have "find (\<lambda>x. key x = k) (idempotencyKeys db3) = Some rec"
    if "create env3 task3 ik3 db1 = Inr (r3, db3)"
    using create_keeps_record[OF that rec(1)] .
  ultimately show ?thesis using rec by simp
qed

text \<open>
  The first task is created under the key \<open>key-1\<close>. A second call with that key is
  answered from the record; a third call, under another key, creates the second task
  and leaves the record of \<open>key-1\<close> in place.
\<close>

theorem create_twice_same_key_witness:
  "create env_a input_a (Some ''key-1'') empty_db = Inr (response_a, store_a_keyed) \<and>
   create env_b (input_a\<lparr>id_task := ''t9''\<rparr>) (Some ''key-1'') store_a_keyed =
     Inr (response_a, store_a_keyed) \<and>
   create env_b input_b (Some ''key-2'') store_a_keyed =
     Inr (\<lparr>task_id = ''t2'', state_resp = NEW, version_resp = 1\<rparr>,
          \<lparr>tasks = [task_a, task_b], taskEvents = [event_a, event_b],
           idempotencyKeys =
             [key_a,
              \<lparr>key = ''key-2'',
               responsePayload = \<lparr>task_id = ''t2'', state_resp = NEW, version_resp = 1\<rparr>,
               createdAt_key = 1005\<rparr>]\<rparr>)"
proof -
  let ?db3 = "\<lparr>tasks = [task_a, task_b], taskEvents = [event_a, event_b],
           idempotencyKeys =
             [key_a,
              \<lparr>key = ''key-2'',
               responsePayload = \<lparr>task_id = ''t2'', state_resp = NEW, version_resp = 1\<rparr>,
               createdAt_key = 1005\<rparr>]\<rparr>"
  have h1: "''key-1'' \<noteq> []" by simp
  have h2: "create env_a input_a (Some ''key-1'') empty_db = Inr (response_a, store_a_keyed)"
    by (simp add: create_def existing_key_def truthy_def insert_task_def insert_event_def
          insert_key_def Let_def env_a_def input_a_def empty_db_def response_a_def
          store_a_keyed_def task_a_def event_a_def key_a_def)
  have h3: "create env_b input_b (Some ''key-2'') store_a_keyed =
              Inr (\<lparr>task_id = ''t2'', state_resp = NEW, version_resp = 1\<rparr>, ?db3)"
    by (simp add: create_def existing_key_def truthy_def insert_task_def insert_event_def
          insert_key_def Let_def env_b_def input_b_def response_a_def
          store_a_keyed_def task_a_def task_b_def event_a_def event_b_def key_a_def)
  from create_twice_same_key
         [OF h1 h2, where ?env2.0 = env_b and ?task2.0 = "input_a\<lparr>id_task := ''t9''\<rparr>"
            and ?env3.0 = env_b and ?task3.0 = input_b and ?ik3.0 = "Some ''key-2''"
            and ?r3.0 = "\<lparr>task_id = ''t2'', state_resp = NEW, version_resp = 1\<rparr>"
            and ?db3.0 = ?db3]
       h2 h3
  show ?thesis by (auto simp: response_a_def)
qed

text \<open>
  The claim as first stated, for every key, fails at the empty key, which \<open>create\<close>
  treats as no key: two calls with the key \<open>''''\<close> that differ only in the fresh task
  id return different responses and store two tasks with two TaskCreated events.
\<close>

theorem create_twice_empty_key_counterexample:
  "create env_a input_a (Some '''') empty_db = Inr (response_a, store_a) \<and>
   create env_b (input_a\<lparr>id_task := ''t9''\<rparr>) (Some '''') store_a =
     Inr (\<lparr>task_id = ''t9'', state_resp = NEW, version_resp = 1\<rparr>,
          \<lparr>tasks = [task_a, task_a\<lparr>id_task := ''t9'', createdAt := 1005,
                                    updatedAt := 1005\<rparr>],
           taskEvents =
             [event_a,
              \<lparr>id_event = ''e2'', taskId_event = ''t9'', eventType = ''TaskCreated'',
               payload = TaskCreatedPayload (input_a\<lparr>id_task := ''t9''\<rparr>) 1,
               createdAt_event = 1005\<rparr>],
           idempotencyKeys = []\<rparr>)"
  by (simp add: create_def existing_key_def truthy_def insert_task_def insert_event_def
        Let_def env_a_def env_b_def input_a_def empty_db_def response_a_def store_a_def
        task_a_def event_a_def)

text \<open>
  C10, as amended. The idempotency check compares only the key, never the payload: for
  every non-empty key, when a call of \<open>create\<close> with the key has succeeded, a second
  call with the same key returns the first call's cached response and changes nothing
  in the database (no task, no event), whatever its task id, tenant, workspace, title,
  priority, state and assignee are.
\<close>

theorem create_compares_only_key:
  assumes "k \<noteq> []" and "create env1 task1 (Some k) db = Inr (r1, db1)"
  shows "create env2
           \<lparr>id_task = newId, tenantId = tenant2, workspaceId = workspace2, title = title2,
            priority = priority2, state = state2, assigneeId = assignee2\<rparr>
           (Some k) db1 = Inr (r1, db1)"
proof -
  from create_stores_response[OF assms] obtain rec where
    "find (\<lambda>x. key x = k) (idempotencyKeys db1) = Some rec" "responsePayload rec = r1"
    by blast
  then show ?thesis using create_cached[OF assms(1)] by simp
qed

text \<open>
  After the first task was created under \<open>key-1\<close>, a call with that key and the
  payload of the second task (another tenant, workspace, title and priority) returns
  the first task's response and stores nothing.
\<close>

theorem create_compares_only_key_witness:
  "create env_a input_a (Some ''key-1'') empty_db = Inr (response_a, store_a_keyed) \<and>
   create env_b input_b (Some ''key-1'') store_a_keyed = Inr (response_a, store_a_keyed) \<and>
   task_id response_a = ''t1''"
proof -
  have h1: "''key-1'' \<noteq> []" by simp
  have h2: "create env_a input_a (Some ''key-1'') empty_db = Inr (response_a, store_a_keyed)"
    by (simp add: create_def existing_key_def truthy_def insert_task_def insert_event_def
          insert_key_def Let_def env_a_def input_a_def empty_db_def response_a_def
          store_a_keyed_def task_a_def event_a_def key_a_def)
  from create_compares_only_key
         [OF h1 h2, of env_b "''t2''" "''tenant_2''" "''ws_2''" "''Write docs''" LOW NEW None]
       h2
  show ?thesis by (simp add: input_b_def response_a_def)
qed

text \<open>
  The claim as first stated, for every key, fails at the empty key: after the first
  task was created under the key \<open>''''\<close>, a call with the same key and the payload of
  the second task does not return the first response; it creates the second task.
\<close>

theorem create_empty_key_payload_counterexample:
  "create env_a input_a (Some '''') empty_db = Inr (response_a, store_a) \<and>
   create env_b input_b (Some '''') store_a =
     Inr (\<lparr>task_id = ''t2'', state_resp = NEW, version_resp = 1\<rparr>,
          \<lparr>tasks = [task_a, task_b], taskEvents = [event_a, event_b],
           idempotencyKeys = []\<rparr>) \<and>
   task_id response_a \<noteq> ''t2''"
  by (simp add: create_def existing_key_def truthy_def insert_task_def insert_event_def
        Let_def env_a_def env_b_def input_a_def input_b_def empty_db_def response_a_def store_a_def
        task_a_def task_b_def event_a_def event_b_def)

section \<open>Listing\<close>

lemma sorted_wrt_order_desc:
  "sorted_wrt (\<lambda>a b. f b \<le> f a) (order_desc f rows)"
proof -
  have "sorted (map (\<lambda>r. - f r) (sort_key (\<lambda>r. - f r) rows))"
    by (rule sorted_sort_key)
  then show ?thesis by (simp add: order_desc_def sorted_map)
qed

lemma sorted_wrt_sql_limit:
  "sorted_wrt R rows \<Longrightarrow> sorted_wrt R (sql_limit n rows)"
  by (simp add: sql_limit_def sorted_wrt_take)

lemma set_sql_limit: "set (sql_limit n rows) \<subseteq> set rows"
  by (auto simp: sql_limit_def dest: in_set_takeD)

lemma set_order_desc [simp]: "set (order_desc f rows) = set rows"
  by (simp add: order_desc_def)

text \<open>
  C8, as amended. For every workspace, tenant and filter set, \<open>list_tasks\<close> returns
  the tasks in descending order of creation time. When a cursor is supplied that is a
  non-empty string which \<open>parseInt\<close> reads as a number, every returned row has a
  creation time strictly below that number, so a row created at the cursor value is
  left out; a supplied cursor that is empty or that \<open>parseInt\<close> reads as NaN is ignored:
  the result is the result without a cursor. When no limit is given, at most 20
  rows are returned.
\<close>

theorem list_tasks_order_cursor_limit:
  "sorted_wrt (\<lambda>a b. createdAt b \<le> createdAt a)
     (list_tasks parseInt scan workspace tenant filters db) \<and>
   (cursor_f filters = Some c \<and> c \<noteq> [] \<and> parseInt c = Some cursorValue \<longrightarrow>
      (\<forall>t \<in> set (list_tasks parseInt scan workspace tenant filters db).
          createdAt t < cursorValue)) \<and>
   (cursor_f filters = Some c \<and> (c = [] \<or> parseInt c = None) \<longrightarrow>
      list_tasks parseInt scan workspace tenant filters db =
      list_tasks parseInt scan workspace tenant (filters\<lparr>cursor_f := None\<rparr>) db) \<and>
   (limit_f filters = None \<longrightarrow>
      length (list_tasks parseInt scan workspace tenant filters db) \<le> 20)"
proof (intro conjI impI)
  show "sorted_wrt (\<lambda>a b. createdAt b \<le> createdAt a)
     (list_tasks parseInt scan workspace tenant filters db)"
    by (simp add: list_tasks_def Let_def sorted_wrt_sql_limit sorted_wrt_order_desc)
next
  assume c: "cursor_f filters = Some c \<and> c \<noteq> [] \<and> parseInt c = Some cursorValue"
  show "\<forall>t \<in> set (list_tasks parseInt scan workspace tenant filters db).
          createdAt t < cursorValue"
  proof
    fix t assume "t \<in> set (list_tasks parseInt scan workspace tenant filters db)"
    then have "t \<in> set (order_desc createdAt (filter (\<lambda>t. list_all (\<lambda>c. c t)
            ([\<lambda>t. workspaceId t = workspace, \<lambda>t. tenantId t = tenant]
            @ (case state_f filters of
                 None \<Rightarrow> []
               | Some s \<Rightarrow> if s \<noteq> [] then [\<lambda>t. state_text (state t) = s] else [])
            @ (case assigneeId_f filters of
                 None \<Rightarrow> []
               | Some a \<Rightarrow> if a \<noteq> [] then [\<lambda>t. assigneeId t = Some a] else [])
            @ [\<lambda>t. createdAt t < cursorValue])) (scan (tasks db))))"
      using c set_sql_limit by (fastforce simp: list_tasks_def Let_def)
    then show "createdAt t < cursorValue" by simp
  qed
next
  assume "cursor_f filters = Some c \<and> (c = [] \<or> parseInt c = None)"
  then show "list_tasks parseInt scan workspace tenant filters db =
      list_tasks parseInt scan workspace tenant (filters\<lparr>cursor_f := None\<rparr>) db"
    by (auto simp: list_tasks_def Let_def)
next
  assume "limit_f filters = None"
  then show "length (list_tasks parseInt scan workspace tenant filters db) \<le> 20"
    by (simp add: list_tasks_def Let_def sql_limit_def)
qed

text \<open>
  Three tasks of one workspace were created at 1000, 1005 and 1010. With the cursor
  \<open>1010\<close> and no limit, the list holds the task of 1005 and then the task of 1000; the
  task created at the cursor value is left out. With the cursor \<open>abc\<close> the list is the
  list without a cursor.
\<close>

theorem list_tasks_witness:
  "list_tasks parseInt_js id ''ws_1'' ''tenant_1'' filters_cursor store_three =
     [task_a\<lparr>id_task := ''t3'', createdAt := 1005, updatedAt := 1005\<rparr>, task_a] \<and>
   cursor_f filters_cursor = Some ''1010'' \<and> parseInt_js ''1010'' = Some 1010 \<and>
   limit_f filters_cursor = None \<and>
   length (list_tasks parseInt_js id ''ws_1'' ''tenant_1'' filters_cursor store_three) \<le> 20 \<and>
   cursor_f filters_abc = Some ''abc'' \<and> parseInt_js ''abc'' = None \<and>
   list_tasks parseInt_js id ''ws_1'' ''tenant_1'' filters_abc store_three =
     list_tasks parseInt_js id ''ws_1'' ''tenant_1'' (filters_abc\<lparr>cursor_f := None\<rparr>)
       store_three"
proof -
  have p: "parseInt_js ''1010'' = Some 1010" and q: "parseInt_js ''abc'' = None"
    by (simp_all add: parseInt_js_eval)
  have h: "cursor_f filters_cursor = Some ''1010'' \<and> ''1010'' \<noteq> [] \<and>
           parseInt_js ''1010'' = Some 1010"
    by (simp add: filters_cursor_def p)
  have l: "limit_f filters_cursor = None"
    by (simp add: filters_cursor_def)
  have e: "list_tasks parseInt_js id ''ws_1'' ''tenant_1'' filters_cursor store_three =
     [task_a\<lparr>id_task := ''t3'', createdAt := 1005, updatedAt := 1005\<rparr>, task_a]"
    by (simp add: list_tasks_def Let_def filters_cursor_def p
          store_three_def task_a_def order_desc_def sql_limit_def)
  have n: "cursor_f filters_abc = Some ''abc'' \<and> (''abc'' = [] \<or> parseInt_js ''abc'' = None)"
    by (simp add: filters_abc_def q)
  from list_tasks_order_cursor_limit
         [of parseInt_js id "''ws_1''" "''tenant_1''" filters_cursor store_three
             "''1010''" 1010]
       list_tasks_order_cursor_limit
         [of parseInt_js id "''ws_1''" "''tenant_1''" filters_abc store_three
             "''abc''" 0]
       h l e n p q
  show ?thesis by simp
qed

text \<open>
  The claim as first stated, for every supplied cursor, fails at a cursor that is
  not a number and at the empty cursor: with the cursor \<open>abc\<close>, and with the cursor
  \<open>''''\<close>, every task of the workspace is returned, the one created last included, as
  if no cursor had been supplied.
\<close>

theorem list_tasks_cursor_counterexample:
  "cursor_f filters_abc = Some ''abc'' \<and> parseInt_js ''abc'' = None \<and>
   list_tasks parseInt_js id ''ws_1'' ''tenant_1'' filters_abc store_three =
     [task_a\<lparr>id_task := ''t4'', createdAt := 1010, updatedAt := 1010\<rparr>,
      task_a\<lparr>id_task := ''t3'', createdAt := 1005, updatedAt := 1005\<rparr>, task_a] \<and>
   cursor_f filters_empty_cursor = Some [] \<and>
   list_tasks parseInt_js id ''ws_1'' ''tenant_1'' filters_empty_cursor store_three =
     [task_a\<lparr>id_task := ''t4'', createdAt := 1010, updatedAt := 1010\<rparr>,
      task_a\<lparr>id_task := ''t3'', createdAt := 1005, updatedAt := 1005\<rparr>, task_a] \<and>
   tasks store_three =
     [task_a, task_a\<lparr>id_task := ''t3'', createdAt := 1005, updatedAt := 1005\<rparr>,
      task_a\<lparr>id_task := ''t4'', createdAt := 1010, updatedAt := 1010\<rparr>]"
proof -
  have q: "parseInt_js ''abc'' = None"
    by (simp add: parseInt_js_eval)
  show ?thesis
    by (simp add: list_tasks_def Let_def filters_abc_def filters_empty_cursor_def q
          store_three_def task_a_def order_desc_def sql_limit_def)
qed

section \<open>Calls one after the other with the same expected version\<close>

text \<open>
  Each operation is one transaction. When a call has been accepted on a task whose
  stored version \<open>v\<close> is at least \<open>-2^53\<close> and below \<open>2^53\<close>, a later call on the same
  task that still expects \<open>v\<close> finds the version \<open>v + 1\<close> and is a version mismatch.
\<close>

lemma assign_then_stale:
  assumes "find (\<lambda>t. id_task t = taskId) (tasks db) = Some t"
    and "- 9007199254740992 \<le> version t" and "version t < 9007199254740992"
    and "assign env1 taskId a v db = Inr (r, db1)"
  shows "assign env2 taskId a2 v db1 = Inl VersionMismatch"
    and "transition env2 taskId toState v db1 = Inl VersionMismatch"
    and "version_resp r = v + 1"
proof -
  from assms(4) obtain u where u: "find (\<lambda>t. id_task t = taskId) (tasks db) = Some u"
    "to_double (version u) = v"
    "r = \<lparr>task_id = taskId, state_resp = state u, version_resp = to_double (v + 1)\<rparr>"
    "db1 = (update_tasks taskId v
              (\<lambda>t. t\<lparr>assigneeId := Some a, version := to_double (v + 1),
                      updatedAt := dateNow env1\<rparr>) db)
            \<lparr>taskEvents := taskEvents db @
               [\<lparr>id_event = uuidv4 env1, taskId_event = taskId, eventType = ''TaskAssigned'',
                 payload = TaskAssignedPayload a, createdAt_event = unixepoch env1\<rparr>]\<rparr>"
    by (rule assign_Inr)
  from u(1) assms(1) have [simp]: "u = t" by simp
  from assms(2,3) u(2) have v: "version t = v" "to_double (v + 1) = v + 1"
    by (simp_all add: to_double_range)
  have f: "find (\<lambda>t. id_task t = taskId) (tasks db1) =
          Some (t\<lparr>assigneeId := Some a, version := v + 1, updatedAt := dateNow env1\<rparr>)"
    using assms(1) v by (simp add: u(4) find_update_tasks)
  show "assign env2 taskId a2 v db1 = Inl VersionMismatch"
    using v by (simp add: assign_def f)
  show "transition env2 taskId toState v db1 = Inl VersionMismatch"
    using v by (simp add: transition_def f)
  show "version_resp r = v + 1"
    using v by (simp add: u(3))
qed

lemma transition_then_stale:
  assumes "find (\<lambda>t. id_task t = taskId) (tasks db) = Some t"
    and "- 9007199254740992 \<le> version t" and "version t < 9007199254740992"
    and "transition env1 taskId toState v db = Inr (r, db1)"
  shows "assign env2 taskId a2 v db1 = Inl VersionMismatch"
    and "transition env2 taskId toState2 v db1 = Inl VersionMismatch"
    and "version_resp r = v + 1"
proof -
  from assms(4) obtain u where u: "find (\<lambda>t. id_task t = taskId) (tasks db) = Some u"
    "to_double (version u) = v"
    "r = \<lparr>task_id = taskId, state_resp = toState, version_resp = to_double (v + 1)\<rparr>"
    "db1 = (update_tasks taskId v
              (\<lambda>t. t\<lparr>state := toState, version := to_double (v + 1),
                      updatedAt := dateNow env1\<rparr>) db)
            \<lparr>taskEvents := taskEvents db @
               [\<lparr>id_event = uuidv4 env1, taskId_event = taskId,
                 eventType = ''TaskStateChanged'',
                 payload = TaskStateChangedPayload (state u) toState,
                 createdAt_event = unixepoch env1\<rparr>]\<rparr>"
    by (rule transition_Inr)
  from u(1) assms(1) have [simp]: "u = t" by simp
  from assms(2,3) u(2) have v: "version t = v" "to_double (v + 1) = v + 1"
    by (simp_all add: to_double_range)
  have f: "find (\<lambda>t. id_task t = taskId) (tasks db1) =
          Some (t\<lparr>state := toState, version := v + 1, updatedAt := dateNow env1\<rparr>)"
    using assms(1) v by (simp add: u(4) find_update_tasks)
  show "assign env2 taskId a2 v db1 = Inl VersionMismatch"
    using v by (simp add: assign_def f)
  show "transition env2 taskId toState2 v db1 = Inl VersionMismatch"
    using v by (simp add: transition_def f)
  show "version_resp r = v + 1"
    using v by (simp add: u(3))
qed

end
